theory Spec2Isabelle
  imports Complex_Main "HOL-Library.Word" "HOL-Library.AList" "HOL-Library.Sublist"
begin

section \<open>Data model (src/types/index.ts)\<close>

text \<open>
  Identifiers, titles and event names are compared only for equality and are kept as
  \<open>string\<close>. A message's content is measured with \<open>.length\<close>, which in JavaScript
  counts UTF-16 code units, so content is a list of 16-bit code units.
\<close>

type_synonym utf16 = "16 word list"

datatype SenderType = User | Agent | System

record Metadata =
  thinking :: "string option"
  modelCallDuration :: "real option"
  modelTokensUsed :: "real option"
  md_error :: "string option"
  isGenerating :: "bool option"

record Message =
  m_id :: string
  m_conversationId :: string
  senderId :: string
  senderType :: SenderType
  content :: utf16
  timestamp :: int
  replyToId :: "string option"
  metadata :: "Metadata option"

text \<open>
  \<open>Conversation\<close> refers to itself through its optional \<open>branches\<close> object, so it is a
  datatype with selectors instead of a record. The \<open>branches\<close> object is an association
  list read with \<open>map_of\<close>; \<open>None\<close> is the missing key.
\<close>

datatype Conversation = Conversation
  (c_id: string)
  (title: string)
  (created: int)
  (updated: int)
  (participants: "string list")
  (messages: "Message list")
  (branches: "(string \<times> Conversation) list option")
  (parentId: "string option")
  (isActive: bool)

fun set_updated :: "int \<Rightarrow> Conversation \<Rightarrow> Conversation" where
  "set_updated t (Conversation i ti cr up ps ms br pa ac) = Conversation i ti cr t ps ms br pa ac"

fun set_messages :: "Message list \<Rightarrow> Conversation \<Rightarrow> Conversation" where
  "set_messages ms' (Conversation i ti cr up ps ms br pa ac) = Conversation i ti cr up ps ms' br pa ac"

fun set_branches :: "(string \<times> Conversation) list option \<Rightarrow> Conversation \<Rightarrow> Conversation" where
  "set_branches br' (Conversation i ti cr up ps ms br pa ac) = Conversation i ti cr up ps ms br' pa ac"

datatype Status = Idle | Generating | Paused | Stopped

record StatusEntry =
  status :: Status
  currentSpeakerId :: "string option"
  lastMessageId :: "string option"

record ConversationState =
  conversations :: "Conversation list"
  activeConversationId :: "string option"
  conversationStatus :: "string \<rightharpoonup> StatusEntry"
  isLoading :: bool
  cs_error :: "string option"

definition initialState :: ConversationState where
  "initialState = \<lparr> conversations = [], activeConversationId = None,
     conversationStatus = Map.empty, isLoading = False, cs_error = None \<rparr>"

section \<open>The conversation slice (conversationSlice.ts)\<close>

text \<open>
  \<open>Array.prototype.findIndex\<close>: the index of the first element that satisfies the
  predicate; \<open>None\<close> stands for the \<open>-1\<close> of the source.
\<close>

fun findIndex :: "('a \<Rightarrow> bool) \<Rightarrow> 'a list \<Rightarrow> nat option" where
  "findIndex P [] = None"
| "findIndex P (x # xs) = (if P x then Some 0 else map_option Suc (findIndex P xs))"

text \<open>
  The reducers read \<open>uuidv4()\<close> and \<open>Date.now()\<close>; the model takes each reading as an
  argument, in the order in which the reducer makes them.
\<close>

definition createConversation ::
  "string \<Rightarrow> int \<Rightarrow> int \<Rightarrow> string option \<Rightarrow> string \<Rightarrow> string list \<Rightarrow> ConversationState \<Rightarrow> ConversationState" where
  "createConversation uuid now1 now2 pid ptitle pparticipants state =
     (let newConversation = Conversation
            (case pid of None \<Rightarrow> uuid | Some i \<Rightarrow> if i = [] then uuid else i)
            ptitle now1 now2 pparticipants [] None None True
      in state\<lparr> conversations := conversations state @ [newConversation],
                activeConversationId := Some (c_id newConversation),
                conversationStatus := (conversationStatus state)
                  (c_id newConversation \<mapsto>
                     \<lparr> status = Idle, currentSpeakerId = None, lastMessageId = None \<rparr>) \<rparr>)"

text \<open>The payload of \<open>addMessage\<close>: \<open>Omit<Message, 'id' | 'timestamp'>\<close>.\<close>

record MessageInput =
  i_conversationId :: string
  i_senderId :: string
  i_senderType :: SenderType
  i_content :: utf16
  i_replyToId :: "string option"
  i_metadata :: "Metadata option"

definition newMessage :: "string \<Rightarrow> int \<Rightarrow> MessageInput \<Rightarrow> Message" where
  "newMessage uuid now p =
     \<lparr> m_id = uuid, m_conversationId = i_conversationId p, senderId = i_senderId p,
       senderType = i_senderType p, content = i_content p, timestamp = now,
       replyToId = i_replyToId p, metadata = i_metadata p \<rparr>"

definition addMessage ::
  "string \<Rightarrow> int \<Rightarrow> int \<Rightarrow> MessageInput \<Rightarrow> ConversationState \<Rightarrow> ConversationState" where
  "addMessage uuid now1 now2 payload state =
     (case findIndex (\<lambda>c. c_id c = i_conversationId payload) (conversations state) of
        None \<Rightarrow> state
      | Some conversationIndex \<Rightarrow>
          (let msg = newMessage uuid now1 payload;
               conv = conversations state ! conversationIndex;
               state1 = state\<lparr> conversations := (conversations state)
                          [conversationIndex :=
                             set_updated now2 (set_messages (messages conv @ [msg]) conv)] \<rparr>
           in if senderType msg = User
              then state1\<lparr> conversationStatus := (conversationStatus state1)
                      (m_conversationId msg \<mapsto>
                         \<lparr> status = Idle, currentSpeakerId = None,
                           lastMessageId = Some (m_id msg) \<rparr>) \<rparr>
              else state1))"

text \<open>
  The payload of \<open>updateMessage\<close>: \<open>Partial<Message> & {id, conversationId}\<close>. A key of
  the payload is either absent or present with a value of its declared type; for the
  two keys that \<open>Message\<close> itself declares optional the present value may be
  \<open>undefined\<close> (\<open>None\<close>), which the object spread copies like any other value.
\<close>

datatype 'a partial = Absent | Present 'a

record MessageUpdate =
  u_id :: string
  u_conversationId :: string
  u_senderId :: "string partial"
  u_senderType :: "SenderType partial"
  u_content :: "utf16 partial"
  u_timestamp :: "int partial"
  u_replyToId :: "string option partial"
  u_metadata :: "Metadata option partial"

fun spread :: "'a \<Rightarrow> 'a partial \<Rightarrow> 'a" where
  "spread old Absent = old"
| "spread old (Present v) = v"

text \<open>\<open>{...message, ...action.payload}\<close>\<close>

definition mergeMessage :: "Message \<Rightarrow> MessageUpdate \<Rightarrow> Message" where
  "mergeMessage m p =
     \<lparr> m_id = u_id p, m_conversationId = u_conversationId p,
       senderId = spread (senderId m) (u_senderId p),
       senderType = spread (senderType m) (u_senderType p),
       content = spread (content m) (u_content p),
       timestamp = spread (timestamp m) (u_timestamp p),
       replyToId = spread (replyToId m) (u_replyToId p),
       metadata = spread (metadata m) (u_metadata p) \<rparr>"

text \<open>The placeholder content \<open>'...'\<close>: three full stops (U+002E).\<close>

definition placeholder :: utf16 where
  "placeholder = [0x2E, 0x2E, 0x2E]"

text \<open>
  \<open>newContent && prevContent !== newContent &&
     (prevContent === '...' || newContent.length > prevContent.length + 20)\<close>,
  read for its truthiness: a missing and an empty \<open>newContent\<close> are both falsy.
\<close>

definition isCompleteMessage :: "utf16 \<Rightarrow> utf16 partial \<Rightarrow> bool" where
  "isCompleteMessage prevContent newContent =
     (case newContent of
        Absent \<Rightarrow> False
      | Present n \<Rightarrow> n \<noteq> [] \<and> prevContent \<noteq> n \<and>
          (prevContent = placeholder \<or> length n > length prevContent + 20))"

text \<open>\<open>action.payload.metadata?.isGenerating === false\<close>\<close>

definition generationFinished :: "MessageUpdate \<Rightarrow> bool" where
  "generationFinished p =
     (case u_metadata p of
        Present (Some md) \<Rightarrow> isGenerating md = Some False
      | _ \<Rightarrow> False)"

definition updateMessage :: "int \<Rightarrow> MessageUpdate \<Rightarrow> ConversationState \<Rightarrow> ConversationState" where
  "updateMessage now payload state =
     (case findIndex (\<lambda>c. c_id c = u_conversationId payload) (conversations state) of
        None \<Rightarrow> state
      | Some conversationIndex \<Rightarrow>
          (let conv = conversations state ! conversationIndex in
           case findIndex (\<lambda>m. m_id m = u_id payload) (messages conv) of
             None \<Rightarrow> state
           | Some messageIndex \<Rightarrow>
               (let prevContent = content (messages conv ! messageIndex);
                    complete = isCompleteMessage prevContent (u_content payload);
                    state1 = state\<lparr> conversations := (conversations state)
                               [conversationIndex :=
                                  set_updated now
                                    (set_messages
                                       ((messages conv)
                                          [messageIndex :=
                                             mergeMessage (messages conv ! messageIndex) payload])
                                       conv)] \<rparr>
                in if complete \<and> generationFinished payload
                   then state1\<lparr> conversationStatus := (conversationStatus state1)
                           (u_conversationId payload \<mapsto>
                              \<lparr> status = Idle, currentSpeakerId = None,
                                lastMessageId = Some (u_id payload) \<rparr>) \<rparr>
                   else state1)))"

text \<open>
  \<open>createBranch\<close>. Assigning \<open>parentConversation.branches[branchId]\<close> replaces the value
  of an existing key and adds a missing one, which is \<open>AList.update\<close>.
\<close>

definition createBranch ::
  "int \<Rightarrow> int \<Rightarrow> string \<Rightarrow> string \<Rightarrow> string \<Rightarrow> string \<Rightarrow> ConversationState \<Rightarrow> ConversationState" where
  "createBranch now1 now2 pParentId branchId startFromMessageId ptitle state =
     (case findIndex (\<lambda>c. c_id c = pParentId) (conversations state) of
        None \<Rightarrow> state
      | Some parentIndex \<Rightarrow>
          (let parentConversation = conversations state ! parentIndex in
           case findIndex (\<lambda>m. m_id m = startFromMessageId) (messages parentConversation) of
             None \<Rightarrow> state
           | Some messageIndex \<Rightarrow>
               (let branchMessages = take (messageIndex + 1) (messages parentConversation);
                    branch = Conversation branchId ptitle now1 now2
                               (participants parentConversation) branchMessages
                               None (Some pParentId) True;
                    oldBranches = (case branches parentConversation of
                                     None \<Rightarrow> [] | Some b \<Rightarrow> b);
                    parent' = set_branches
                                (Some (AList.update branchId branch oldBranches))
                                parentConversation
                in state\<lparr> conversations :=
                            (conversations state)[parentIndex := parent'] @ [branch],
                          activeConversationId := Some branchId \<rparr>)))"

definition setConversationStatus ::
  "string \<Rightarrow> Status \<Rightarrow> string option \<Rightarrow> ConversationState \<Rightarrow> ConversationState" where
  "setConversationStatus conversationId st speaker state =
     state\<lparr> conversationStatus := (conversationStatus state)
       (conversationId \<mapsto>
          \<lparr> status = st, currentSpeakerId = speaker,
            lastMessageId = (case conversationStatus state conversationId of
                               None \<Rightarrow> None
                             | Some e \<Rightarrow> lastMessageId e) \<rparr>) \<rparr>"


section \<open>The transport (services/websocket.ts)\<close>

datatype ReadyState = CONNECTING | OPEN | CLOSING | CLOSED

text \<open>\<open>JSON.stringify({ type, data })\<close>: one frame on the wire.\<close>

record 'd Envelope =
  e_type :: string
  e_data :: 'd

text \<open>
  The fields of \<open>WebSocketService\<close> that its methods read and write. \<open>socket\<close> is
  \<open>None\<close> for \<open>null\<close> and otherwise carries the \<open>readyState\<close> of the handle it holds.
  The other fields record what the service has handed to its environment: \<open>probing\<close>
  counts the calls of \<open>connect\<close> that are suspended at
  \<open>await this.checkBackendAvailability()\<close>; \<open>scheduled\<close> lists the delays passed to
  \<open>setTimeout\<close>, oldest first, and \<open>fired\<close> counts the timers among them that have
  fired (the service never clears one); \<open>transmitted\<close> lists the frames passed to
  \<open>socket.send\<close>; \<open>dispatched\<close> lists the names of the lifecycle events dispatched to
  subscribers (the repository registers none).
\<close>

record 'd WebSocketService =
  socket :: "ReadyState option"
  reconnectAttempts :: nat
  isEnabled :: bool
  probing :: nat
  fired :: nat
  transmitted :: "'d Envelope list"
  scheduled :: "rat list"
  dispatched :: "string list"

definition maxReconnectAttempts :: nat where
  "maxReconnectAttempts = 5"

definition reconnectDelay :: rat where
  "reconnectDelay = 1000"

definition send :: "string \<Rightarrow> 'd \<Rightarrow> 'd WebSocketService \<Rightarrow> bool \<times> 'd WebSocketService" where
  "send type data ws =
     (if socket ws = Some OPEN
      then (True, ws\<lparr> transmitted := transmitted ws @ [\<lparr> e_type = type, e_data = data \<rparr>] \<rparr>)
      else (False, ws))"

definition attemptReconnect :: "'d WebSocketService \<Rightarrow> 'd WebSocketService" where
  "attemptReconnect ws =
     (let n = reconnectAttempts ws + 1;
          delay = min (reconnectDelay * 1.5 ^ (n - 1)) 30000
      in ws\<lparr> reconnectAttempts := n, scheduled := scheduled ws @ [delay] \<rparr>)"

text \<open>
  \<open>connect\<close> is an \<open>async\<close> method: it runs up to its \<open>await\<close>, and resumes when the
  reachability probe has returned. \<open>connect\<close> below is the first part. The second part,
  \<open>connectResumes\<close>, takes what happens next as its argument: the probe reports the
  backend unavailable; or the socket is constructed (a new handle, \<open>CONNECTING\<close>, takes
  the place of the old one); or the \<open>WebSocket\<close> constructor throws and the \<open>catch\<close>
  branch runs.
\<close>

datatype ConnectOutcome = Unavailable | Constructed | Threw

definition connect :: "'d WebSocketService \<Rightarrow> 'd WebSocketService" where
  "connect ws = (if \<not> isEnabled ws then ws else ws\<lparr> probing := probing ws + 1 \<rparr>)"

definition connectResumes :: "ConnectOutcome \<Rightarrow> 'd WebSocketService \<Rightarrow> 'd WebSocketService" where
  "connectResumes outcome ws =
     (case outcome of
        Unavailable \<Rightarrow> ws
      | Constructed \<Rightarrow> ws\<lparr> socket := Some CONNECTING \<rparr>
      | Threw \<Rightarrow> if isEnabled ws then attemptReconnect ws else ws)"

definition disconnect :: "'d WebSocketService \<Rightarrow> 'd WebSocketService" where
  "disconnect ws = (if socket ws \<noteq> None then ws\<lparr> socket := None \<rparr> else ws)"

definition setEnabled :: "bool \<Rightarrow> 'd WebSocketService \<Rightarrow> 'd WebSocketService" where
  "setEnabled enabled ws =
     (let ws1 = ws\<lparr> isEnabled := enabled \<rparr>
      in if enabled \<and> socket ws1 = None then connect ws1
         else if \<not> enabled \<and> socket ws1 \<noteq> None then disconnect ws1
         else ws1)"

text \<open>The callback that \<open>attemptReconnect\<close> hands to \<open>setTimeout\<close>.\<close>

definition reconnectTimer :: "'d WebSocketService \<Rightarrow> 'd WebSocketService" where
  "reconnectTimer ws = (if socket ws \<noteq> Some OPEN \<and> isEnabled ws then connect ws else ws)"

text \<open>\<open>socket.onopen\<close>, \<open>socket.onclose\<close> (with \<open>event.wasClean\<close> as its argument) and \<open>socket.onerror\<close>.\<close>

definition onopen :: "'d WebSocketService \<Rightarrow> 'd WebSocketService" where
  "onopen ws = ws\<lparr> reconnectAttempts := 0, dispatched := dispatched ws @ [''connected''] \<rparr>"

definition onclose :: "bool \<Rightarrow> 'd WebSocketService \<Rightarrow> 'd WebSocketService" where
  "onclose wasClean ws =
     (let ws1 = ws\<lparr> dispatched := dispatched ws @ [''disconnected''] \<rparr>
      in if \<not> wasClean \<and> reconnectAttempts ws1 < maxReconnectAttempts \<and> isEnabled ws1
         then attemptReconnect ws1
         else ws1)"

definition onerror :: "'d WebSocketService \<Rightarrow> 'd WebSocketService" where
  "onerror ws = ws\<lparr> dispatched := dispatched ws @ [''error''] \<rparr>"

text \<open>
  What can happen to the service: a call of \<open>setEnabled\<close>, \<open>connect\<close> or \<open>disconnect\<close>;
  a suspended \<open>connect\<close> resuming; a reconnect timer firing; an \<open>open\<close>, \<open>close\<close> or
  \<open>error\<close> event of a socket the service has constructed. The handlers of a socket
  stay installed after \<open>disconnect\<close> or a later \<open>connect\<close> has taken the handle away
  from \<open>this.socket\<close>, so each socket event says whether its socket is the one that
  \<open>this.socket\<close> holds; if so, the browser has set that socket's \<open>readyState\<close> before
  the handler runs. An event that the state does not allow (no \<open>connect\<close> suspended,
  no timer left) changes nothing.
\<close>

datatype SocketEvent =
    SetEnabled bool
  | Connect
  | ProbeReturns ConnectOutcome
  | Disconnect
  | TimerFires
  | Opened bool
  | Closed bool bool
  | Errored

definition setReadyState :: "bool \<Rightarrow> ReadyState \<Rightarrow> 'd WebSocketService \<Rightarrow> 'd WebSocketService" where
  "setReadyState held s ws = (if held then ws\<lparr> socket := map_option (\<lambda>_. s) (socket ws) \<rparr> else ws)"

fun socketEvent :: "SocketEvent \<Rightarrow> 'd WebSocketService \<Rightarrow> 'd WebSocketService" where
  "socketEvent (SetEnabled enabled) ws = setEnabled enabled ws"
| "socketEvent Connect ws = connect ws"
| "socketEvent (ProbeReturns outcome) ws =
     (if probing ws = 0 then ws
      else connectResumes outcome (ws\<lparr> probing := probing ws - 1 \<rparr>))"
| "socketEvent Disconnect ws = disconnect ws"
| "socketEvent TimerFires ws =
     (if fired ws < length (scheduled ws)
      then reconnectTimer (ws\<lparr> fired := fired ws + 1 \<rparr>)
      else ws)"
| "socketEvent (Opened held) ws = onopen (setReadyState held OPEN ws)"
| "socketEvent (Closed wasClean held) ws = onclose wasClean (setReadyState held CLOSED ws)"
| "socketEvent Errored ws = onerror ws"

fun socketEvents :: "SocketEvent list \<Rightarrow> 'd WebSocketService \<Rightarrow> 'd WebSocketService" where
  "socketEvents [] ws = ws"
| "socketEvents (e # es) ws = socketEvents es (socketEvent e ws)"

text \<open>The service as its field initialisers leave it.\<close>

definition initialService :: "'d WebSocketService" where
  "initialService = \<lparr> socket = None, reconnectAttempts = 0, isEnabled = False, probing = 0,
      fired = 0, transmitted = [], scheduled = [], dispatched = [] \<rparr>"

text \<open>
  The inbound handlers. \<open>message.conversationId || message.id\<close> takes the id when the
  conversation id is missing or empty.
\<close>

record WireMessage =
  w_id :: string
  w_conversationId :: "string option"
  w_content :: utf16
  w_metadata :: "Metadata option"

definition handleMessageChunk ::
  "int \<Rightarrow> string \<Rightarrow> string \<Rightarrow> utf16 \<Rightarrow> ConversationState \<Rightarrow> ConversationState" where
  "handleMessageChunk now conversationId messageId chunk state =
     updateMessage now
       \<lparr> u_id = messageId, u_conversationId = conversationId, u_senderId = Absent,
         u_senderType = Absent, u_content = Present chunk, u_timestamp = Absent,
         u_replyToId = Absent, u_metadata = Absent \<rparr> state"

definition handleMessageComplete ::
  "int \<Rightarrow> WireMessage option \<Rightarrow> ConversationState \<Rightarrow> ConversationState" where
  "handleMessageComplete now message state =
     (case message of
        None \<Rightarrow> state
      | Some m \<Rightarrow>
          updateMessage now
            \<lparr> u_id = w_id m,
              u_conversationId = (case w_conversationId m of
                                    None \<Rightarrow> w_id m
                                  | Some c \<Rightarrow> if c = [] then w_id m else c),
              u_senderId = Absent, u_senderType = Absent,
              u_content = Present (w_content m), u_timestamp = Absent,
              u_replyToId = Absent, u_metadata = Present (w_metadata m) \<rparr> state)"

section \<open>The turn controls (components/conversation/ConversationControls.tsx)\<close>

record ModelParameters =
  temperature :: real
  topP :: "real option"
  maxTokens :: "real option"
  frequencyPenalty :: "real option"
  presencePenalty :: "real option"
  stop :: "string list option"

record MemorySettings =
  messageLimit :: "real option"
  tokenLimit :: "real option"
  useSearchMemory :: bool
  summaryInterval :: "real option"

record Persona =
  p_id :: string
  p_name :: string
  avatar :: string
  systemPrompt :: string
  modelId :: string
  parameters :: ModelParameters
  memorySettings :: MemorySettings
  conversationStyle :: string
  p_created :: int
  p_updated :: int

text \<open>The \<open>data\<close> of the commands the component sends: \<open>{persona}\<close> or \<open>{conversation_id}\<close>.\<close>

datatype Payload = PersonaPayload Persona | ConversationIdPayload string

text \<open>
  What one render of the component closes over: its props, the selected personas, and
  the constants \<open>turnDelay\<close>, \<open>conversationStatus\<close> and \<open>isAutoMode\<close> that the function
  body computes before it defines its handlers. \<open>isGenerating\<close>, \<open>isPaused\<close> and
  \<open>isStopped\<close> are constants of the same body. Every function a render defines
  (\<open>triggerNextTurn\<close>, \<open>startAutoMode\<close>, the arrow functions given to \<open>setTimeout\<close> and
  \<open>setInterval\<close>) refers to the constants of that render, never to the store: a click
  runs the handler of the latest render, a timer runs the callback of the render that
  set it.
\<close>

record Render =
  r_conversationId :: string
  r_participants :: "string list"
  r_personas :: "Persona list"
  r_turnDelay :: nat
  r_status :: Status
  r_isAutoMode :: bool

definition isGeneratingR :: "Render \<Rightarrow> bool" where
  "isGeneratingR r = (r_status r = Generating)"

definition isPausedR :: "Render \<Rightarrow> bool" where
  "isPausedR r = (r_status r = Paused)"

definition isStoppedR :: "Render \<Rightarrow> bool" where
  "isStoppedR r = (r_status r = Stopped)"

text \<open>The callbacks handed to \<open>setTimeout\<close> and \<open>setInterval\<close>, each with its render.\<close>

datatype Callback = SendTimeout Render | StartAutoModeTimeout Render | AutoModeTick Render

text \<open>
  The state the component works on: the two store slices it selects from, the
  \<open>messageDelay\<close> setting, the transport, its props, its \<open>isAutoMode\<close> state, the
  \<open>autoModeRef\<close> handle, and the timers of the event loop (handle, delay in ms, callback).
  Timer handles are positive, as in a browser.
\<close>

record World =
  slice :: ConversationState
  personas :: "Persona list"
  messageDelay :: nat
  websocketService :: "Payload WebSocketService"
  conversationId :: string
  participantIds :: "string list"
  isAutoMode :: bool
  autoModeRef :: "nat option"
  nextHandle :: nat
  timeouts :: "(nat \<times> nat \<times> Callback) list"
  intervals :: "(nat \<times> nat \<times> Callback) list"

text \<open>
  The values a render takes from the current state: \<open>settings.messageDelay || 2000\<close>, and
  \<open>conversationStatus[conversationId] || {status: "idle"}\<close>.
\<close>

definition render :: "World \<Rightarrow> Render" where
  "render w =
     \<lparr> r_conversationId = conversationId w,
       r_participants = participantIds w,
       r_personas = personas w,
       r_turnDelay = (if messageDelay w = 0 then 2000 else messageDelay w),
       r_status = (case conversationStatus (slice w) (conversationId w) of
                     None \<Rightarrow> Idle | Some e \<Rightarrow> status e),
       r_isAutoMode = isAutoMode w \<rparr>"

definition dispatchStatus :: "string \<Rightarrow> Status \<Rightarrow> World \<Rightarrow> World" where
  "dispatchStatus cid st w = w\<lparr> slice := setConversationStatus cid st None (slice w) \<rparr>"

definition wsSend :: "string \<Rightarrow> Payload \<Rightarrow> World \<Rightarrow> World" where
  "wsSend type data w = w\<lparr> websocketService := snd (send type data (websocketService w)) \<rparr>"

definition setTimeout :: "Callback \<Rightarrow> nat \<Rightarrow> World \<Rightarrow> World" where
  "setTimeout cb delay w =
     w\<lparr> timeouts := timeouts w @ [(nextHandle w, delay, cb)], nextHandle := nextHandle w + 1 \<rparr>"

definition setInterval :: "Callback \<Rightarrow> nat \<Rightarrow> World \<Rightarrow> nat \<times> World" where
  "setInterval cb delay w =
     (nextHandle w,
      w\<lparr> intervals := intervals w @ [(nextHandle w, delay, cb)], nextHandle := nextHandle w + 1 \<rparr>)"

definition clearAutoModeInterval :: "World \<Rightarrow> World" where
  "clearAutoModeInterval w =
     (case autoModeRef w of
        None \<Rightarrow> w
      | Some h \<Rightarrow>
          if h = 0 then w
          else w\<lparr> intervals := filter (\<lambda>t. fst t \<noteq> h) (intervals w), autoModeRef := None \<rparr>)"

text \<open>
  \<open>triggerNextTurn\<close>. \<open>send\<close> has no throwing path, so the \<open>catch\<close> branch that
  would reset the status is never entered.
\<close>

definition triggerNextTurn :: "Render \<Rightarrow> World \<Rightarrow> World" where
  "triggerNextTurn r w =
     (if isGeneratingR r \<or> isPausedR r \<or> isStoppedR r then w
      else wsSend ''multi_agent_next_turn'' (ConversationIdPayload (r_conversationId r))
             (dispatchStatus (r_conversationId r) Generating w))"

definition resetConversation :: "Render \<Rightarrow> World \<Rightarrow> World" where
  "resetConversation r w =
     (let w1 = dispatchStatus (r_conversationId r) Idle w
      in if r_isAutoMode r then (clearAutoModeInterval w1)\<lparr> isAutoMode := False \<rparr> else w1)"

text \<open>One step of the \<open>participants.forEach\<close> loop of \<open>startAutoMode\<close>.\<close>

definition registerParticipant :: "Render \<Rightarrow> string \<Rightarrow> World \<Rightarrow> World" where
  "registerParticipant r participantId w =
     (case List.find (\<lambda>p. p_id p = participantId) (r_personas r) of
        None \<Rightarrow> w
      | Some persona \<Rightarrow> wsSend ''register_persona'' (PersonaPayload persona) w)"

definition startAutoMode :: "Render \<Rightarrow> World \<Rightarrow> World" where
  "startAutoMode r w =
     (let w1 = (if isPausedR r \<or> isStoppedR r then resetConversation r w else w);
          w2 = w1\<lparr> isAutoMode := True \<rparr>;
          w3 = fold (registerParticipant r) (r_participants r) w2
      in setTimeout (StartAutoModeTimeout r) 500 w3)"

definition stopAutoMode :: "World \<Rightarrow> World" where
  "stopAutoMode w = clearAutoModeInterval (w\<lparr> isAutoMode := False \<rparr>)"

definition handlePause :: "Render \<Rightarrow> World \<Rightarrow> World" where
  "handlePause r w =
     (if isPausedR r
      then (let w1 = dispatchStatus (r_conversationId r) Idle w
            in if r_isAutoMode r then startAutoMode r w1 else w1)
      else (let w1 = dispatchStatus (r_conversationId r) Paused w
            in if r_isAutoMode r then clearAutoModeInterval w1 else w1))"

definition handleStop :: "Render \<Rightarrow> World \<Rightarrow> World" where
  "handleStop r w =
     (let w1 = dispatchStatus (r_conversationId r) Stopped w;
          w2 = (if r_isAutoMode r then (clearAutoModeInterval w1)\<lparr> isAutoMode := False \<rparr> else w1)
      in wsSend ''stop_generation'' (ConversationIdPayload (r_conversationId r)) w2)"

text \<open>
  \<open>message.trim()\<close> is empty exactly when every code unit of the message is white space
  or a line terminator.
\<close>

definition isWhiteSpace :: "16 word \<Rightarrow> bool" where
  "isWhiteSpace c =
     (c \<in> {0x0009, 0x000A, 0x000B, 0x000C, 0x000D, 0x0020, 0x00A0, 0x1680, 0x2028, 0x2029,
            0x202F, 0x205F, 0x3000, 0xFEFF} \<or> (0x2000 \<le> c \<and> c \<le> 0x200A))"

definition handleSendMessage :: "Render \<Rightarrow> utf16 \<Rightarrow> string \<Rightarrow> int \<Rightarrow> int \<Rightarrow> World \<Rightarrow> World" where
  "handleSendMessage r message uuid now1 now2 w =
     (if list_all isWhiteSpace message then w
      else
        (let w1 = w\<lparr> slice := addMessage uuid now1 now2
                      \<lparr> i_conversationId = r_conversationId r, i_senderId = ''user'',
                        i_senderType = User, i_content = message,
                        i_replyToId = None, i_metadata = None \<rparr> (slice w) \<rparr>;
             w2 = dispatchStatus (r_conversationId r) Idle w1
         in if r_isAutoMode r then setTimeout (SendTimeout r) 500 w2 else w2))"

text \<open>The timer callbacks.\<close>

fun runCallback :: "Callback \<Rightarrow> World \<Rightarrow> World" where
  "runCallback (SendTimeout r) w = triggerNextTurn r w"
| "runCallback (StartAutoModeTimeout r) w =
     (let w1 = (if \<not> isGeneratingR r then triggerNextTurn r w else w);
          (h, w2) = setInterval (AutoModeTick r) (r_turnDelay r) w1
      in w2\<lparr> autoModeRef := Some h \<rparr>)"
| "runCallback (AutoModeTick r) w =
     (if r_status r \<noteq> Generating \<and> r_status r \<noteq> Paused \<and> r_status r \<noteq> Stopped
      then triggerNextTurn r w else w)"

text \<open>
  What can happen to the component: a click on one of its controls, handled by the
  functions of the current render (a disabled control ignores the click); a timer that
  fires; an inbound \<open>message_complete\<close> frame; an event of the transport.
\<close>

datatype Event =
    ClickAuto
  | ClickNextTurn
  | ClickPause
  | ClickStop
  | ClickSend utf16 string int int
  | TimeoutFires nat
  | IntervalFires nat
  | MessageCompleteArrives int "WireMessage option"
  | Transport SocketEvent

fun step :: "Event \<Rightarrow> World \<Rightarrow> World" where
  "step ClickAuto w =
     (let r = render w
      in if isStoppedR r then w
         else if r_isAutoMode r then stopAutoMode w else startAutoMode r w)"
| "step ClickNextTurn w =
     (let r = render w
      in if r_isAutoMode r \<or> isGeneratingR r \<or> isPausedR r \<or> isStoppedR r then w
         else triggerNextTurn r w)"
| "step ClickPause w =
     (let r = render w in if isStoppedR r then w else handlePause r w)"
| "step ClickStop w =
     (let r = render w in if isStoppedR r then w else handleStop r w)"
| "step (ClickSend message uuid now1 now2) w =
     (let r = render w
      in if list_all isWhiteSpace message \<or> isStoppedR r then w
         else handleSendMessage r message uuid now1 now2 w)"
| "step (TimeoutFires h) w =
     (case List.find (\<lambda>t. fst t = h) (timeouts w) of
        None \<Rightarrow> w
      | Some (_, _, cb) \<Rightarrow>
          runCallback cb (w\<lparr> timeouts := filter (\<lambda>t. fst t \<noteq> h) (timeouts w) \<rparr>))"
| "step (IntervalFires h) w =
     (case List.find (\<lambda>t. fst t = h) (intervals w) of
        None \<Rightarrow> w
      | Some (_, _, cb) \<Rightarrow> runCallback cb w)"
| "step (MessageCompleteArrives now message) w =
     w\<lparr> slice := handleMessageComplete now message (slice w) \<rparr>"
| "step (Transport e) w = w\<lparr> websocketService := socketEvent e (websocketService w) \<rparr>"


text \<open>The status of the component's conversation after each event of a run, oldest first.\<close>

definition statusOf :: "World \<Rightarrow> Status option" where
  "statusOf w = map_option status (conversationStatus (slice w) (conversationId w))"

fun statusTrace :: "Event list \<Rightarrow> World \<Rightarrow> Status option list" where
  "statusTrace [] w = [statusOf w]"
| "statusTrace (e # es) w = statusOf w # statusTrace es (step e w)"

section \<open>Example states\<close>

text \<open>Concrete stores, payloads and component states on which the theorems below are run.\<close>

definition exState :: ConversationState where
  "exState = createConversation ''u0'' 10 10 (Some ''c1'') ''Demo'' [''p1'', ''p2''] initialState"

definition exMetadata :: "bool \<Rightarrow> Metadata" where
  "exMetadata g = \<lparr> thinking = None, modelCallDuration = None, modelTokensUsed = None,
      md_error = None, isGenerating = Some g \<rparr>"

definition exInput :: "string \<Rightarrow> SenderType \<Rightarrow> utf16 \<Rightarrow> MessageInput" where
  "exInput cid k c = \<lparr> i_conversationId = cid, i_senderId = ''p1'', i_senderType = k,
      i_content = c, i_replyToId = None, i_metadata = None \<rparr>"

definition exUpdate :: "string \<Rightarrow> string \<Rightarrow> utf16 \<Rightarrow> MessageUpdate" where
  "exUpdate cid mid c = \<lparr> u_id = mid, u_conversationId = cid, u_senderId = Absent,
      u_senderType = Absent, u_content = Present c, u_timestamp = Absent,
      u_replyToId = Absent, u_metadata = Present (Some (exMetadata False)) \<rparr>"

definition exWire :: "string \<Rightarrow> string \<Rightarrow> utf16 \<Rightarrow> WireMessage" where
  "exWire cid mid c = \<lparr> w_id = mid, w_conversationId = Some cid, w_content = c,
      w_metadata = Some (exMetadata False) \<rparr>"

text \<open>One conversation whose only message is an agent placeholder, with a turn in progress.\<close>

definition exStreaming :: ConversationState where
  "exStreaming = setConversationStatus ''c1'' Generating (Some ''p1'')
     (addMessage ''m1'' 20 20 (exInput ''c1'' Agent placeholder) exState)"

text \<open>The content \<open>Hello\<close>.\<close>

definition exHello :: utf16 where
  "exHello = [0x48, 0x65, 0x6C, 0x6C, 0x6F]"


definition exService :: "ReadyState option \<Rightarrow> Payload WebSocketService" where
  "exService s = \<lparr> socket = s, reconnectAttempts = 0, isEnabled = True, probing = 0,
      fired = 0, transmitted = [], scheduled = [], dispatched = [] \<rparr>"

definition exPersona :: "string \<Rightarrow> string \<Rightarrow> Persona" where
  "exPersona i n = \<lparr> p_id = i, p_name = n, avatar = [], systemPrompt = ''Be brief.'',
      modelId = ''gpt-4-turbo'',
      parameters = \<lparr> temperature = 1, topP = None, maxTokens = None,
        frequencyPenalty = None, presencePenalty = None, stop = None \<rparr>,
      memorySettings = \<lparr> messageLimit = None, tokenLimit = None, useSearchMemory = False,
        summaryInterval = None \<rparr>,
      conversationStyle = [], p_created = 1, p_updated = 1 \<rparr>"

text \<open>
  The service is enabled and the \<open>WebSocket\<close> constructor throws every time \<open>connect\<close>
  reaches it: ten attempts, each but the first started by the timer of the one before.
\<close>

definition exThrowRun :: "SocketEvent list" where
  "exThrowRun = SetEnabled True # ProbeReturns Threw #
     concat (replicate 9 [TimerFires, ProbeReturns Threw])"

text \<open>
  The component mounted on conversation \<open>c1\<close> (participants \<open>p1\<close> and \<open>p2\<close>, status
  idle) with the given persona store: connection open, auto-mode off, no timer set.
\<close>

definition exWorld :: "Persona list \<Rightarrow> World" where
  "exWorld ps = \<lparr> slice = exState, personas = ps, messageDelay = 500,
      websocketService = exService (Some OPEN), conversationId = ''c1'',
      participantIds = [''p1'', ''p2''], isAutoMode = False, autoModeRef = None,
      nextHandle = 1, timeouts = [], intervals = [] \<rparr>"


section \<open>Auxiliary facts\<close>

lemma findIndex_None_iff: "findIndex P xs = None \<longleftrightarrow> (\<forall>x\<in>set xs. \<not> P x)"
  by (induction xs) auto

lemma findIndex_Some_D:
  "findIndex P xs = Some i \<Longrightarrow> i < length xs \<and> P (xs ! i) \<and> (\<forall>j<i. \<not> P (xs ! j))"
proof (induction xs arbitrary: i)
  case Nil
  then show ?case by simp
next
  case (Cons x xs)
  show ?case
  proof (cases "P x")
    case True
    with Cons.prems show ?thesis by simp
  next
    case False
    with Cons.prems obtain k where k: "findIndex P xs = Some k" "i = Suc k"
      by auto
    from Cons.IH[OF k(1)] False k(2) show ?thesis
      by (auto simp: less_Suc_eq_0_disj)
  qed
qed


lemma messages_set_updated [simp]: "messages (set_updated t c) = messages c"
  by (cases c) simp

lemma messages_set_messages [simp]: "messages (set_messages ms c) = ms"
  by (cases c) simp

lemma messages_set_branches [simp]: "messages (set_branches b c) = messages c"
  by (cases c) simp

lemma c_id_set_updated [simp]: "c_id (set_updated t c) = c_id c"
  by (cases c) simp

lemma c_id_set_messages [simp]: "c_id (set_messages ms c) = c_id c"
  by (cases c) simp

lemma c_id_set_branches [simp]: "c_id (set_branches b c) = c_id c"
  by (cases c) simp

lemma branches_set_branches [simp]: "branches (set_branches b c) = b"
  by (cases c) simp

lemma exState_conversations:
  "conversations exState = [Conversation ''c1'' ''Demo'' 10 10 [''p1'', ''p2''] [] None None True]"
  by (simp add: exState_def createConversation_def initialState_def)

lemma exStreaming_conversations:
  "conversations exStreaming =
     [Conversation ''c1'' ''Demo'' 10 20 [''p1'', ''p2'']
        [newMessage ''m1'' 20 (exInput ''c1'' Agent placeholder)] None None True]"
  by (simp add: exStreaming_def setConversationStatus_def addMessage_def exState_conversations
      exInput_def newMessage_def)

lemma exStreaming_status:
  "conversationStatus exStreaming ''c1'' =
     Some \<lparr> status = Generating, currentSpeakerId = Some ''p1'', lastMessageId = None \<rparr>"
  by (simp add: exStreaming_def setConversationStatus_def addMessage_def exState_conversations
      exInput_def newMessage_def exState_def createConversation_def initialState_def)

section \<open>The conversation slice: claims\<close>

text \<open>
  Claim C10. An \<open>addMessage\<close> or \<open>updateMessage\<close> dispatch whose \<open>conversationId\<close> is the
  id of no conversation in the store returns the store as it was: the conversation list,
  every message and every status entry are unchanged, and the reducer has no failing
  path to take.
\<close>

theorem C10_missing_conversation_is_noop:
  "(i_conversationId inp \<notin> c_id ` set (conversations state) \<longrightarrow>
      addMessage uuid now1 now2 inp state = state) \<and>
   (u_conversationId upd \<notin> c_id ` set (conversations state) \<longrightarrow>
      updateMessage now upd state = state)"
proof (intro conjI impI)
  assume "i_conversationId inp \<notin> c_id ` set (conversations state)"
  then have "findIndex (\<lambda>c. c_id c = i_conversationId inp) (conversations state) = None"
    by (force simp: findIndex_None_iff)
  then show "addMessage uuid now1 now2 inp state = state"
    by (simp add: addMessage_def)
next
  assume "u_conversationId upd \<notin> c_id ` set (conversations state)"
  then have "findIndex (\<lambda>c. c_id c = u_conversationId upd) (conversations state) = None"
    by (force simp: findIndex_None_iff)
  then show "updateMessage now upd state = state"
    by (simp add: updateMessage_def)
qed

theorem C10_witness:
  "i_conversationId (exInput ''c2'' User exHello) \<notin> c_id ` set (conversations exState) \<and>
   addMessage ''u1'' 11 12 (exInput ''c2'' User exHello) exState = exState \<and>
   u_conversationId (exUpdate ''c2'' ''m1'' exHello) \<notin> c_id ` set (conversations exState) \<and>
   updateMessage 13 (exUpdate ''c2'' ''m1'' exHello) exState = exState"
  using C10_missing_conversation_is_noop
    [of "exInput ''c2'' User exHello" exState "''u1''" 11 12 "exUpdate ''c2'' ''m1'' exHello" 13]
  by (simp add: exState_conversations exInput_def exUpdate_def)

text \<open>
  Claim C1, as stated, fails. Conversation \<open>c1\<close> exists and holds no message; an
  \<open>updateMessage\<close> for the pair (\<open>c1\<close>, \<open>m9\<close>), dispatched directly or through
  \<open>handleMessageComplete\<close>, leaves its message list empty: nothing is appended.
\<close>

theorem C1_counterexample:
  "c_id (conversations exState ! 0) = ''c1'' \<and>
   messages (conversations exState ! 0) = [] \<and>
   messages (conversations (updateMessage 30 (exUpdate ''c1'' ''m9'' exHello) exState) ! 0) = [] \<and>
   messages (conversations
     (handleMessageComplete 30 (Some (exWire ''c1'' ''m9'' exHello)) exState) ! 0) = []"
  by (simp add: exState_conversations updateMessage_def handleMessageComplete_def exUpdate_def
      exWire_def)

text \<open>
  Claim C1, amended. An \<open>updateMessage\<close> dispatch whose (conversationId, messageId) pair
  matches no existing message (no conversation with that id holds a message with that
  id) returns the store as it was: no message is created, and the reducer has no failing
  path to take.
\<close>

theorem C1_missing_message_is_noop:
  assumes "\<forall>c \<in> set (conversations state).
             c_id c = u_conversationId upd \<longrightarrow> u_id upd \<notin> m_id ` set (messages c)"
  shows "updateMessage now upd state = state"
proof (cases "findIndex (\<lambda>c. c_id c = u_conversationId upd) (conversations state)")
  case None
  then show ?thesis by (simp add: updateMessage_def)
next
  case (Some cx)
  from findIndex_Some_D[OF Some]
  have "conversations state ! cx \<in> set (conversations state)"
    and "c_id (conversations state ! cx) = u_conversationId upd"
    by simp_all
  with assms have "u_id upd \<notin> m_id ` set (messages (conversations state ! cx))"
    by blast
  then have "findIndex (\<lambda>m. m_id m = u_id upd) (messages (conversations state ! cx)) = None"
    by (force simp: findIndex_None_iff)
  with Some show ?thesis by (simp add: updateMessage_def)
qed

theorem C1_witness:
  "c_id (conversations exState ! 0) = ''c1'' \<and>
   u_conversationId (exUpdate ''c1'' ''m9'' exHello) = ''c1'' \<and>
   u_id (exUpdate ''c1'' ''m9'' exHello) \<notin> m_id ` set (messages (conversations exState ! 0)) \<and>
   updateMessage 30 (exUpdate ''c1'' ''m9'' exHello) exState = exState"
  using C1_missing_message_is_noop[of exState "exUpdate ''c1'' ''m9'' exHello" 30]
  by (simp add: exState_conversations exUpdate_def)

text \<open>
  Claim C4, as stated, fails. The stored message \<open>m1\<close> holds the placeholder and a turn
  is in progress; the update replaces the content by the empty string (so the prior
  content was the placeholder and the content changed) and marks generation finished.
  The status entry stays \<open>generating\<close>.
\<close>

theorem C4_counterexample:
  "content (messages (conversations exStreaming ! 0) ! 0) = placeholder \<and>
   m_id (messages (conversations exStreaming ! 0) ! 0) = ''m1'' \<and>
   u_content (exUpdate ''c1'' ''m1'' []) = Present [] \<and>
   [] \<noteq> placeholder \<and>
   u_metadata (exUpdate ''c1'' ''m1'' []) = Present (Some (exMetadata False)) \<and>
   isGenerating (exMetadata False) = Some False \<and>
   content (messages (conversations
     (updateMessage 30 (exUpdate ''c1'' ''m1'' []) exStreaming) ! 0) ! 0) = [] \<and>
   conversationStatus (updateMessage 30 (exUpdate ''c1'' ''m1'' []) exStreaming) ''c1'' =
     Some \<lparr> status = Generating, currentSpeakerId = Some ''p1'', lastMessageId = None \<rparr>"
  by (simp add: exStreaming_conversations exStreaming_status updateMessage_def exUpdate_def
      newMessage_def exInput_def isCompleteMessage_def placeholder_def exMetadata_def
      mergeMessage_def generationFinished_def)

text \<open>
  Claim C4, amended. When \<open>updateMessage\<close> finds its message, the status entry of the
  payload's conversation becomes \<open>idle\<close> with \<open>lastMessageId\<close> the message's id exactly
  when the payload carries a non-empty content that differs from the prior content,
  the prior content is the placeholder or the new content is more than 20 code units
  longer than it, and the payload's metadata has \<open>isGenerating\<close> equal to \<open>false\<close>;
  in every other case the whole status map is left as it was.
\<close>

theorem C4_status_after_update:
  assumes "findIndex (\<lambda>c. c_id c = u_conversationId upd) (conversations state) = Some cx"
    and "findIndex (\<lambda>m. m_id m = u_id upd) (messages (conversations state ! cx)) = Some mx"
  shows "conversationStatus (updateMessage now upd state) =
     (if (\<exists>n. u_content upd = Present n \<and> n \<noteq> [] \<and>
               n \<noteq> content (messages (conversations state ! cx) ! mx) \<and>
               (content (messages (conversations state ! cx) ! mx) = placeholder \<or>
                length n > length (content (messages (conversations state ! cx) ! mx)) + 20)) \<and>
         (\<exists>md. u_metadata upd = Present (Some md) \<and> isGenerating md = Some False)
      then (conversationStatus state)
             (u_conversationId upd \<mapsto>
                \<lparr> status = Idle, currentSpeakerId = None, lastMessageId = Some (u_id upd) \<rparr>)
      else conversationStatus state)"
proof -
  let ?prev = "content (messages (conversations state ! cx) ! mx)"
  have c: "isCompleteMessage ?prev (u_content upd) =
      (\<exists>n. u_content upd = Present n \<and> n \<noteq> [] \<and> n \<noteq> ?prev \<and>
           (?prev = placeholder \<or> length n > length ?prev + 20))"
    by (cases "u_content upd") (auto simp: isCompleteMessage_def)
  have g: "generationFinished upd =
      (\<exists>md. u_metadata upd = Present (Some md) \<and> isGenerating md = Some False)"
    by (auto simp: generationFinished_def split: partial.splits option.splits)
  have "conversationStatus (updateMessage now upd state) =
     (if isCompleteMessage ?prev (u_content upd) \<and> generationFinished upd
      then (conversationStatus state)
             (u_conversationId upd \<mapsto>
                \<lparr> status = Idle, currentSpeakerId = None, lastMessageId = Some (u_id upd) \<rparr>)
      else conversationStatus state)"
    using assms by (simp add: updateMessage_def Let_def)
  then show ?thesis
    unfolding c g .
qed

theorem C4_witness:
  "findIndex (\<lambda>c. c_id c = u_conversationId (exUpdate ''c1'' ''m1'' exHello))
     (conversations exStreaming) = Some 0 \<and>
   findIndex (\<lambda>m. m_id m = u_id (exUpdate ''c1'' ''m1'' exHello))
     (messages (conversations exStreaming ! 0)) = Some 0 \<and>
   conversationStatus (updateMessage 30 (exUpdate ''c1'' ''m1'' exHello) exStreaming) ''c1'' =
     Some \<lparr> status = Idle, currentSpeakerId = None, lastMessageId = Some ''m1'' \<rparr>"
  using C4_status_after_update[of "exUpdate ''c1'' ''m1'' exHello" exStreaming 0 0 30]
  by (simp add: exStreaming_conversations exUpdate_def newMessage_def exInput_def
      placeholder_def exHello_def exMetadata_def)

text \<open>
  Claim C7. When \<open>addMessage\<close> finds its conversation, the conversation list keeps its
  length, every other conversation is untouched, and the found conversation's messages
  are the old ones followed by one new message, whose id is the generated id, whose
  timestamp is the clock reading and whose other fields are the payload's. If the sender
  is the user, the status entry of that conversation becomes \<open>idle\<close> with
  \<open>lastMessageId\<close> the new id; otherwise the status map is unchanged.
\<close>

theorem C7_addMessage_appends:
  assumes "findIndex (\<lambda>c. c_id c = i_conversationId inp) (conversations state) = Some cx"
  shows "length (conversations (addMessage uuid now1 now2 inp state)) = length (conversations state) \<and>
     messages (conversations (addMessage uuid now1 now2 inp state) ! cx) =
       messages (conversations state ! cx) @ [newMessage uuid now1 inp] \<and>
     m_id (newMessage uuid now1 inp) = uuid \<and>
     timestamp (newMessage uuid now1 inp) = now1 \<and>
     content (newMessage uuid now1 inp) = i_content inp \<and>
     senderId (newMessage uuid now1 inp) = i_senderId inp \<and>
     senderType (newMessage uuid now1 inp) = i_senderType inp \<and>
     (\<forall>j. j \<noteq> cx \<longrightarrow>
        conversations (addMessage uuid now1 now2 inp state) ! j = conversations state ! j) \<and>
     (i_senderType inp = User \<longrightarrow>
        conversationStatus (addMessage uuid now1 now2 inp state) =
          (conversationStatus state)
            (i_conversationId inp \<mapsto>
               \<lparr> status = Idle, currentSpeakerId = None, lastMessageId = Some uuid \<rparr>)) \<and>
     (i_senderType inp \<noteq> User \<longrightarrow>
        conversationStatus (addMessage uuid now1 now2 inp state) = conversationStatus state)"
proof -
  from findIndex_Some_D[OF assms] have lt: "cx < length (conversations state)"
    by simp
  show ?thesis
    using assms lt by (simp add: addMessage_def Let_def newMessage_def)
qed

theorem C7_witness:
  "findIndex (\<lambda>c. c_id c = i_conversationId (exInput ''c1'' User exHello))
     (conversations exStreaming) = Some 0 \<and>
   map m_id (messages (conversations
     (addMessage ''m2'' 40 41 (exInput ''c1'' User exHello) exStreaming) ! 0)) = [''m1'', ''m2''] \<and>
   conversationStatus (addMessage ''m2'' 40 41 (exInput ''c1'' User exHello) exStreaming) ''c1'' =
      Some \<lparr> status = Idle, currentSpeakerId = None, lastMessageId = Some ''m2'' \<rparr>"
  using C7_addMessage_appends[of "exInput ''c1'' User exHello" exStreaming 0 "''m2''" 40 41]
  by (simp add: exStreaming_conversations exInput_def newMessage_def)

lemma createBranch_found:
  assumes "findIndex (\<lambda>c. c_id c = pid) (conversations state) = Some px"
    and "findIndex (\<lambda>m. m_id m = startId) (messages (conversations state ! px)) = Some mx"
  shows "createBranch now1 now2 pid bid startId ttl state =
     state\<lparr> conversations :=
       (conversations state)
         [px := set_branches
            (Some (AList.update bid
               (Conversation bid ttl now1 now2 (participants (conversations state ! px))
                  (take (mx + 1) (messages (conversations state ! px))) None (Some pid) True)
               (case branches (conversations state ! px) of None \<Rightarrow> [] | Some b \<Rightarrow> b)))
            (conversations state ! px)]
       @ [Conversation bid ttl now1 now2 (participants (conversations state ! px))
            (take (mx + 1) (messages (conversations state ! px))) None (Some pid) True],
       activeConversationId := Some bid \<rparr>"
  using assms by (simp add: createBranch_def Let_def)

text \<open>
  Claim C8. When \<open>createBranch\<close> finds the parent (at index \<open>px\<close>) and, in it, the start
  message (at index \<open>mx\<close>), the conversation list grows by one. Its new last element,
  the branch, has id \<open>branchId\<close> and the given title; its messages are the parent's
  first \<open>mx + 1\<close> messages, the last of which is the start message; its participants are
  the parent's and its \<open>parentId\<close> is the parent's id. The parent keeps its place and
  id, and its \<open>branches\<close> object maps \<open>branchId\<close> to the branch. No other conversation
  changes.
\<close>

theorem C8_createBranch:
  assumes "findIndex (\<lambda>c. c_id c = pid) (conversations state) = Some px"
    and "findIndex (\<lambda>m. m_id m = startId) (messages (conversations state ! px)) = Some mx"
  shows "let state' = createBranch now1 now2 pid bid startId ttl state;
             parent = conversations state ! px;
             parent' = conversations state' ! px;
             branch = last (conversations state')
         in length (conversations state') = length (conversations state) + 1 \<and>
            c_id branch = bid \<and> title branch = ttl \<and>
            messages branch = take (mx + 1) (messages parent) \<and>
            mx < length (messages parent) \<and>
            m_id (messages parent ! mx) = startId \<and>
            participants branch = participants parent \<and>
            parentId branch = Some pid \<and>
            c_id parent = pid \<and> c_id parent' = pid \<and>
            (case branches parent' of
               None \<Rightarrow> False
             | Some bs \<Rightarrow> map_of bs bid = Some branch) \<and>
            (\<forall>j < length (conversations state). j \<noteq> px \<longrightarrow>
               conversations state' ! j = conversations state ! j)"
proof -
  from findIndex_Some_D[OF assms(1)]
  have p: "px < length (conversations state)" "c_id (conversations state ! px) = pid"
    by simp_all
  from findIndex_Some_D[OF assms(2)]
  have m: "mx < length (messages (conversations state ! px))"
    "m_id (messages (conversations state ! px) ! mx) = startId"
    by simp_all
  show ?thesis
    unfolding createBranch_found[OF assms] Let_def
    using p m by (simp add: nth_append update_conv')
qed

theorem C8_witness:
  "findIndex (\<lambda>c. c_id c = ''c1'') (conversations exStreaming) = Some 0 \<and>
   findIndex (\<lambda>m. m_id m = ''m1'') (messages (conversations exStreaming ! 0)) = Some 0 \<and>
   map c_id (conversations (createBranch 50 51 ''c1'' ''b1'' ''m1'' ''Fork'' exStreaming)) =
     [''c1'', ''b1''] \<and>
   map m_id (messages (last (conversations
     (createBranch 50 51 ''c1'' ''b1'' ''m1'' ''Fork'' exStreaming)))) = [''m1''] \<and>
   parentId (last (conversations
     (createBranch 50 51 ''c1'' ''b1'' ''m1'' ''Fork'' exStreaming))) = Some ''c1''"
  using C8_createBranch[of "''c1''" exStreaming 0 "''m1''" 0 50 51 "''b1''" "''Fork''"]
  by (simp add: exStreaming_conversations newMessage_def Let_def createBranch_def)










section \<open>The transport: claims\<close>

lemma socketEvent_transmitted: "transmitted (socketEvent e ws) = transmitted ws"
  by (cases e)
     (simp_all add: onopen_def onclose_def onerror_def attemptReconnect_def Let_def
        setEnabled_def connect_def connectResumes_def disconnect_def reconnectTimer_def
        setReadyState_def split: ConnectOutcome.splits)

lemma socketEvents_transmitted: "transmitted (socketEvents es ws) = transmitted ws"
  by (induction es arbitrary: ws) (simp_all add: socketEvent_transmitted)

text \<open>
  Claim C3. If the service has no socket or its socket is not \<open>OPEN\<close>, \<open>send\<close> returns
  \<open>false\<close> and leaves the whole service state as it was: no frame is handed to the
  socket, no timer is set, nothing is stored for later, and no later event of the
  service (the socket opening, closing, a reconnect) transmits anything for the call.
  If the socket is \<open>OPEN\<close>, \<open>send\<close> returns \<open>true\<close> and the only change is one more
  transmitted frame, the envelope of \<open>type\<close> and \<open>data\<close>. \<open>send\<close> has no failing path
  (\<open>data\<close> ranges over values that \<open>JSON.stringify\<close> accepts).
\<close>

theorem C3_send:
  "(socket ws \<noteq> Some OPEN \<longrightarrow>
      fst (send type data ws) = False \<and> snd (send type data ws) = ws \<and>
      (\<forall>es. transmitted (socketEvents es (snd (send type data ws))) = transmitted ws)) \<and>
   (socket ws = Some OPEN \<longrightarrow>
      fst (send type data ws) = True \<and>
      transmitted (snd (send type data ws)) =
        transmitted ws @ [\<lparr> e_type = type, e_data = data \<rparr>] \<and>
      snd (send type data ws) =
        ws\<lparr> transmitted := transmitted (snd (send type data ws)) \<rparr>)"
  by (simp add: send_def socketEvents_transmitted)

theorem C3_witness:
  "socket (exService None) \<noteq> Some OPEN \<and>
   socket (exService (Some CONNECTING)) \<noteq> Some OPEN \<and>
   send ''stop_generation'' (ConversationIdPayload ''c1'') (exService None) =
      (False, exService None) \<and>
   send ''stop_generation'' (ConversationIdPayload ''c1'') (exService (Some CONNECTING)) =
      (False, exService (Some CONNECTING)) \<and>
   socket (socketEvents [Opened True]
      (snd (send ''stop_generation'' (ConversationIdPayload ''c1'')
         (exService (Some CONNECTING))))) = Some OPEN \<and>
   transmitted (socketEvents [Opened True, Closed False True, TimerFires, ProbeReturns Constructed]
      (snd (send ''stop_generation'' (ConversationIdPayload ''c1'')
         (exService (Some CONNECTING))))) = [] \<and>
   socket (exService (Some OPEN)) = Some OPEN \<and>
   fst (send ''stop_generation'' (ConversationIdPayload ''c1'') (exService (Some OPEN))) = True \<and>
   transmitted (snd (send ''stop_generation'' (ConversationIdPayload ''c1'')
      (exService (Some OPEN)))) =
      [\<lparr> e_type = ''stop_generation'', e_data = ConversationIdPayload ''c1'' \<rparr>]"
  using C3_send[of "exService None" "''stop_generation''" "ConversationIdPayload ''c1''"]
    C3_send[of "exService (Some CONNECTING)" "''stop_generation''" "ConversationIdPayload ''c1''"]
    C3_send[of "exService (Some OPEN)" "''stop_generation''" "ConversationIdPayload ''c1''"]
  by (simp add: exService_def send_def onclose_def onopen_def attemptReconnect_def Let_def
      setReadyState_def reconnectTimer_def connect_def connectResumes_def
      maxReconnectAttempts_def)

text \<open>
  What the reconnect policy does hold to. Every timer \<open>attemptReconnect\<close> sets, for its
  attempt \<open>n\<close>, has the delay \<open>min (1000 * 1.5 ^ (n - 1)) 30000\<close> (the powers of 1.5 below
  the cap are dyadic rationals that a double represents exactly, so the rational
  arithmetic is that of the source); the close handler calls it only for an unclean
  close, with the service enabled and fewer than 5 attempts counted; an open resets the
  counter; and in a run in which the constructor never throws a counter of at most 5
  stays at most 5.
\<close>

lemma attemptReconnect_delay:
  "reconnectAttempts (attemptReconnect ws) = reconnectAttempts ws + 1 \<and>
   scheduled (attemptReconnect ws) =
     scheduled ws @ [min (1000 * 1.5 ^ (reconnectAttempts (attemptReconnect ws) - 1)) 30000]"
  by (simp add: attemptReconnect_def Let_def reconnectDelay_def)

lemma onclose_policy:
  "(\<not> wasClean \<and> isEnabled ws \<and> reconnectAttempts ws < 5 \<longrightarrow>
      reconnectAttempts (onclose wasClean ws) = reconnectAttempts ws + 1 \<and>
      reconnectAttempts (onclose wasClean ws) \<le> 5 \<and>
      scheduled (onclose wasClean ws) =
        scheduled ws @ [min (1000 * 1.5 ^ (reconnectAttempts (onclose wasClean ws) - 1)) 30000]) \<and>
   (\<not> (\<not> wasClean \<and> isEnabled ws \<and> reconnectAttempts ws < 5) \<longrightarrow>
      reconnectAttempts (onclose wasClean ws) = reconnectAttempts ws \<and>
      scheduled (onclose wasClean ws) = scheduled ws)"
  by (simp add: onclose_def attemptReconnect_def Let_def maxReconnectAttempts_def reconnectDelay_def)

lemma onopen_resets: "reconnectAttempts (onopen ws) = 0"
  by (simp add: onopen_def)

lemma socketEvent_bound:
  assumes "e \<noteq> ProbeReturns Threw" and "reconnectAttempts ws \<le> 5"
  shows "reconnectAttempts (socketEvent e ws) \<le> 5"
proof (cases e)
  case (ProbeReturns outcome)
  with assms show ?thesis
    by (cases outcome) (simp_all add: connectResumes_def)
next
  case (Closed wasClean held)
  have "reconnectAttempts (setReadyState held CLOSED ws) = reconnectAttempts ws"
    by (simp add: setReadyState_def)
  with assms(2) onclose_policy[of wasClean "setReadyState held CLOSED ws"] Closed
  show ?thesis by (cases "\<not> wasClean \<and> isEnabled (setReadyState held CLOSED ws) \<and>
        reconnectAttempts (setReadyState held CLOSED ws) < 5") simp_all
qed (use assms in \<open>simp_all add: setEnabled_def connect_def disconnect_def reconnectTimer_def
      onopen_def onerror_def Let_def\<close>)

lemma socketEvents_bound:
  "ProbeReturns Threw \<notin> set es \<Longrightarrow> reconnectAttempts ws \<le> 5 \<Longrightarrow>
   reconnectAttempts (socketEvents es ws) \<le> 5"
proof (induction es arbitrary: ws)
  case Nil
  then show ?case by simp
next
  case (Cons e es)
  from Cons.prems have e: "e \<noteq> ProbeReturns Threw" and es: "ProbeReturns Threw \<notin> set es"
    by auto
  from Cons.IH[OF es socketEvent_bound[OF e Cons.prems(2)]] show ?case
    by simp
qed

text \<open>
  Claim C2 fails on the code. The close handler tests the counter against the ceiling
  of 5 before it calls \<open>attemptReconnect\<close>; the \<open>catch\<close> branch of \<open>connect\<close> calls it
  under \<open>isEnabled\<close> alone. With the service enabled and the \<open>WebSocket\<close> constructor
  throwing each time \<open>connect\<close> reaches it, every attempt sets the timer of the next:
  after ten consecutive failures the counter is 10 and the service is still
  reconnecting. The delays follow the stated formula, the tenth at its cap.
\<close>

theorem C2_counter_passes_ceiling:
  "isEnabled (socketEvents exThrowRun (initialService :: Payload WebSocketService)) \<and>
   reconnectAttempts (socketEvents exThrowRun (initialService :: Payload WebSocketService)) = 10 \<and>
   scheduled (socketEvents exThrowRun (initialService :: Payload WebSocketService)) =
     [1000, 1500, 2250, 3375, 10125 / 2, 30375 / 4, 91125 / 8, 273375 / 16, 820125 / 32, 30000]"
  by (simp add: exThrowRun_def initialService_def setEnabled_def connect_def connectResumes_def
      reconnectTimer_def attemptReconnect_def reconnectDelay_def Let_def numeral_eq_Suc)

section \<open>The turn controls: claims\<close>


lemma wsSend_other [simp]:
  "timeouts (wsSend t d w) = timeouts w"
  "nextHandle (wsSend t d w) = nextHandle w"
  "socket (websocketService (wsSend t d w)) = socket (websocketService w)"
  by (simp_all add: wsSend_def send_def)

lemma dispatchStatus_other [simp]:
  "websocketService (dispatchStatus c s w) = websocketService w"
  "timeouts (dispatchStatus c s w) = timeouts w"
  "nextHandle (dispatchStatus c s w) = nextHandle w"
  by (simp_all add: dispatchStatus_def)

lemma clearAutoModeInterval_other [simp]:
  "websocketService (clearAutoModeInterval w) = websocketService w"
  "timeouts (clearAutoModeInterval w) = timeouts w"
  "nextHandle (clearAutoModeInterval w) = nextHandle w"
  by (simp_all add: clearAutoModeInterval_def split: option.splits)

lemma resetConversation_other [simp]:
  "websocketService (resetConversation r w) = websocketService w"
  "timeouts (resetConversation r w) = timeouts w"
  "nextHandle (resetConversation r w) = nextHandle w"
  by (simp_all add: resetConversation_def Let_def)

lemma setTimeout_other [simp]: "websocketService (setTimeout cb d w) = websocketService w"
  by (simp add: setTimeout_def)








lemma stopAutoMode_same [simp]: "websocketService (stopAutoMode w) = websocketService w"
  by (simp add: stopAutoMode_def)



lemma handleSendMessage_same [simp]:
  "websocketService (handleSendMessage r m u n1 n2 w) = websocketService w"
  by (simp add: handleSendMessage_def Let_def)









lemma triggerNextTurn_guarded: "r_status r \<noteq> Idle \<Longrightarrow> triggerNextTurn r w = w"
  by (cases "r_status r")
     (simp_all add: triggerNextTurn_def isGeneratingR_def isPausedR_def isStoppedR_def)

lemma paused_click_keeps_status:
  "r_status (render w) = Paused \<Longrightarrow> statusOf (step ClickNextTurn w) = statusOf w"
  by (simp add: Let_def isPausedR_def)

text \<open>
  Claim C5 fails on the code. Auto-mode is started while the status is \<open>idle\<close>; the
  conversation is paused before the 500 ms timer of \<open>startAutoMode\<close> fires (there
  is no interval yet for the pause to clear); the timer fires. Its callback calls the
  \<open>triggerNextTurn\<close> of the render that started auto-mode, whose guard still reads
  \<open>idle\<close>, and the status goes from \<open>paused\<close> to \<open>generating\<close> with no \<open>idle\<close> in between.
  The guard itself is there (the two lemmas above): it is the render it reads that is
  out of date.
\<close>

theorem C5_paused_to_generating:
  "statusTrace [ClickAuto, ClickPause, TimeoutFires 1]
     (exWorld [exPersona ''p1'' ''Ada'', exPersona ''p2'' ''Bob'']) =
   [Some Idle, Some Idle, Some Paused, Some Generating]"
  by (simp add: statusOf_def render_def exWorld_def exState_def createConversation_def
      initialState_def exService_def Let_def isStoppedR_def isPausedR_def isGeneratingR_def
      startAutoMode_def registerParticipant_def wsSend_def send_def setTimeout_def exPersona_def
      handlePause_def dispatchStatus_def setConversationStatus_def clearAutoModeInterval_def
      triggerNextTurn_def setInterval_def)

end
